theory Spec2Isabelle
  imports Complex_Main
begin

section \<open>Conventions\<close>

text \<open>
  Python floats are modelled as reals, except in \<open>validate_float\<close>: every claim below
  depends only on comparisons and on one quotient of two counters. Wall-clock readings (timestamps, durations) that
  the source stores in its result dictionaries are left out of the result records; the
  only clock value kept is the timestamp that names the candidate endpoint.
  An exception is a value of \<open>error\<close>; a call that may raise returns \<open>error + 'a\<close>.
\<close>

datatype error =
    ValueError string
  | KeyError string
  | IndexError string
  | NameError string
  | RemoteError string

fun str :: "error \<Rightarrow> string" where
  "str (ValueError m) = m"
| "str (KeyError m) = m"
| "str (IndexError m) = m"
| "str (NameError m) = m"
| "str (RemoteError m) = m"

text \<open>Truthiness of an optional string: \<open>None\<close> and the empty string are falsy.\<close>

fun truthy :: "string option \<Rightarrow> bool" where
  "truthy None = False"
| "truthy (Some s) = (s \<noteq> [])"

text \<open>Python's \<open>a in b\<close> on strings: \<open>a\<close> occurs in \<open>b\<close> as a contiguous run.\<close>

fun starts_with :: "string \<Rightarrow> string \<Rightarrow> bool" where
  "starts_with [] ys = True"
| "starts_with (x # xs) [] = False"
| "starts_with (x # xs) (y # ys) = (x = y \<and> starts_with xs ys)"

fun str_in :: "string \<Rightarrow> string \<Rightarrow> bool" where
  "str_in a [] = (a = [])"
| "str_in a (y # ys) = (starts_with a (y # ys) \<or> str_in a ys)"

section \<open>pipeline/config.py\<close>

text \<open>
  The attributes of \<open>PipelineConfig\<close> that the pipelines read. A value of this record
  is either the class attributes (what the classmethods \<open>validate\<close> and \<open>to_dict\<close>
  see) or the attributes as an instance resolves them (what \<open>self.config.X\<close> reads).
\<close>

record pipeline_config =
  ACCURACY_THRESHOLD :: real
  MINIMUM_ACCURACY :: real
  INSTANCE_TYPE :: string
  AUTO_DEPLOY_ENABLED :: bool
  ROLLBACK_ON_FAILURE :: bool
  MODEL_NAME_PREFIX :: string
  ENDPOINT_PREFIX :: string
  LOG_LEVEL :: string

text \<open>
  The two thresholds are Python floats read from the environment: besides a finite value
  they can be an infinity or NaN, and every comparison with NaN is false.
  \<open>validate_float\<close> is the classmethod on such a pair. \<open>validate\<close> below is the same
  method on a configuration whose thresholds are finite, which is what the pipelines are
  given.
\<close>

datatype pyfloat = Finite real | PosInf | NegInf | NaN

fun float_lt :: "pyfloat \<Rightarrow> pyfloat \<Rightarrow> bool" where
  "float_lt NaN y = False"
| "float_lt x NaN = False"
| "float_lt (Finite a) (Finite b) = (a < b)"
| "float_lt (Finite a) PosInf = True"
| "float_lt (Finite a) NegInf = False"
| "float_lt NegInf (Finite b) = True"
| "float_lt NegInf PosInf = True"
| "float_lt NegInf NegInf = False"
| "float_lt PosInf y = False"

definition float_gt :: "pyfloat \<Rightarrow> pyfloat \<Rightarrow> bool" where
  "float_gt x y = float_lt y x"

definition validate_float :: "pyfloat \<Rightarrow> pyfloat \<Rightarrow> error + bool" where
  "validate_float threshold minimum =
     (if float_lt threshold (Finite 0) \<or> float_gt threshold (Finite 1)
        then Inl (ValueError ''ACCURACY_THRESHOLD must be between 0 and 1'')
      else if float_lt minimum (Finite 0) \<or> float_gt minimum (Finite 1)
        then Inl (ValueError ''MINIMUM_ACCURACY must be between 0 and 1'')
      else if float_lt threshold minimum
        then Inl (ValueError ''ACCURACY_THRESHOLD must be >= MINIMUM_ACCURACY'')
      else Inr True)"

definition validate :: "pipeline_config \<Rightarrow> error + bool" where
  "validate cls =
     (if ACCURACY_THRESHOLD cls < 0 \<or> ACCURACY_THRESHOLD cls > 1
        then Inl (ValueError ''ACCURACY_THRESHOLD must be between 0 and 1'')
      else if MINIMUM_ACCURACY cls < 0 \<or> MINIMUM_ACCURACY cls > 1
        then Inl (ValueError ''MINIMUM_ACCURACY must be between 0 and 1'')
      else if ACCURACY_THRESHOLD cls < MINIMUM_ACCURACY cls
        then Inl (ValueError ''ACCURACY_THRESHOLD must be >= MINIMUM_ACCURACY'')
      else Inr True)"

section \<open>pipeline/training.py\<close>

record evaluation =
  accuracy :: real
  cv_mean_accuracy :: real

text \<open>
  The reason string of \<open>should_deploy\<close> is one of three templates filled with the
  accuracy and the thresholds; the template and its arguments are kept, the rendering of
  the numbers is not.
\<close>

datatype reason =
    Meets_deployment_threshold real real
  | Meets_minimum_below_optimal real real real
  | Below_minimum_threshold real real

definition should_deploy :: "pipeline_config \<Rightarrow> evaluation \<Rightarrow> bool \<times> reason" where
  "should_deploy cfg evaluation_results =
     (let acc = accuracy evaluation_results in
      if acc \<ge> ACCURACY_THRESHOLD cfg
        then (True, Meets_deployment_threshold acc (ACCURACY_THRESHOLD cfg))
      else if acc \<ge> MINIMUM_ACCURACY cfg
        then (False, Meets_minimum_below_optimal acc (MINIMUM_ACCURACY cfg) (ACCURACY_THRESHOLD cfg))
      else (False, Below_minimum_threshold acc (MINIMUM_ACCURACY cfg)))"

section \<open>pipeline/deployment.py\<close>

subsection \<open>Data\<close>

datatype json =
    JNull
  | JBool bool
  | JNum real
  | JStr string
  | JList "json list"
  | JObj "(string \<times> json) list"

datatype level = INFO | WARNING | ERROR

type_synonym log_line = "level \<times> string"

record training_job =
  FinalMetricDataList :: "(string \<times> real) list option"
  S3ModelArtifacts :: string
  RoleArn :: string

record training_job_summary =
  TrainingJobName :: string
  TrainingJobStatus :: string

record endpoint_summary =
  EndpointName :: string
  EndpointStatus :: string

datatype evaluation_results =
    Evaluation string real "string \<rightharpoonup> real"
  | Evaluation_error string string

datatype test_results =
    Test_success json
  | Test_failed string

fun test_status :: "test_results \<Rightarrow> string" where
  "test_status (Test_success predictions) = ''success''"
| "test_status (Test_failed e) = ''failed''"

record deployment_metadata =
  md_endpoint_name :: string
  md_training_job_name :: string
  md_instance_type :: string
  md_previous_endpoint :: "string option"
  md_test_results :: test_results

text \<open>The dictionary returned by \<open>_rollback_deployment\<close>: \<open>status\<close> and its optional keys.\<close>

record rollback_results =
  rb_status :: string
  rolled_back_to :: "string option"
  rb_reason :: "string option"
  rb_error :: "string option"

datatype deployment_results =
    Deploy_success string test_results deployment_metadata
  | Deploy_failed string "rollback_results option" string

datatype notification =
    Deployment_success_notification deployment_results
  | Deployment_failure_notification deployment_results
  | Deployment_skipped_notification string evaluation_results string
  | Error_notification string

datatype pipeline_results =
    Pipeline_success string bool evaluation_results "deployment_results option"
  | Pipeline_failed string

text \<open>
  The object: its configuration, the two endpoint fields, the metadata, and what it has
  written to its logger and handed to its notification manager (sending never raises:
  both delivery channels catch every exception).
\<close>

record deployment_pipeline =
  config :: pipeline_config
  current_endpoint :: "string option"
  previous_endpoint :: "string option"
  deployment_metadata :: "deployment_metadata option"
  logged :: "log_line list"
  sent :: "notification list"

text \<open>
  The remote services, as the outcome of each call the pipeline makes, one field per
  call site. \<open>create_model\<close> stands for \<open>sagemaker.Session()\<close> followed by the
  \<open>SKLearnModel\<close> constructor; \<open>now\<close> is the timestamp that names the endpoint.
\<close>

record aws =
  now :: string
  list_training_jobs :: "error + training_job_summary list"
  describe_training_job_criteria :: "error + training_job"
  describe_training_job_deploy :: "error + training_job"
  create_model :: "error option"
  list_endpoints :: "error + endpoint_summary list"
  model_deploy :: "error option"
  invoke_endpoint :: "error + json"
  describe_endpoint :: "error + string"

definition new_deployment_pipeline :: "pipeline_config \<Rightarrow> deployment_pipeline" where
  "new_deployment_pipeline cfg =
     \<lparr>config = cfg, current_endpoint = None, previous_endpoint = None,
      deployment_metadata = None, logged = [], sent = []\<rparr>"

definition info :: "string \<Rightarrow> deployment_pipeline \<Rightarrow> deployment_pipeline" where
  "info m s = s\<lparr>logged := logged s @ [(INFO, m)]\<rparr>"

definition warning :: "string \<Rightarrow> deployment_pipeline \<Rightarrow> deployment_pipeline" where
  "warning m s = s\<lparr>logged := logged s @ [(WARNING, m)]\<rparr>"

definition log_error :: "string \<Rightarrow> deployment_pipeline \<Rightarrow> deployment_pipeline" where
  "log_error m s = s\<lparr>logged := logged s @ [(ERROR, m)]\<rparr>"

definition notify :: "notification \<Rightarrow> deployment_pipeline \<Rightarrow> deployment_pipeline" where
  "notify n s = s\<lparr>sent := sent s @ [n]\<rparr>"

definition dict_get :: "('k \<rightharpoonup> 'v) \<Rightarrow> 'k \<Rightarrow> 'v \<Rightarrow> 'v" where
  "dict_get m k d = (case m k of Some v \<Rightarrow> v | None \<Rightarrow> d)"

subsection \<open>get_latest_training_job\<close>

definition get_latest_training_job ::
  "deployment_pipeline \<Rightarrow> aws \<Rightarrow> string option \<times> deployment_pipeline" where
  "get_latest_training_job s w =
     (let s1 = info ''Searching for latest completed training job'' s in
      case list_training_jobs w of
        Inl e \<Rightarrow> (None, log_error (''Error finding training job: '' @ str e) s1)
      | Inr jobs \<Rightarrow>
          (case find (\<lambda>job. TrainingJobStatus job = ''Completed'' \<and>
                            str_in (MODEL_NAME_PREFIX (config s)) (TrainingJobName job)) jobs of
             Some job \<Rightarrow>
               (Some (TrainingJobName job),
                info (''Found training job: '' @ TrainingJobName job) s1)
           | None \<Rightarrow>
               (case find (\<lambda>job. TrainingJobStatus job = ''Completed'') jobs of
                  Some job \<Rightarrow>
                    (Some (TrainingJobName job),
                     warning (''Using fallback training job: '' @ TrainingJobName job) s1)
                | None \<Rightarrow> (None, log_error ''No completed training jobs found'' s1))))"

subsection \<open>check_deployment_criteria\<close>

text \<open>The loop that fills \<open>final_metrics\<close>: a later metric of the same name overwrites.\<close>

fun collect_metrics :: "(string \<times> real) list \<Rightarrow> (string \<rightharpoonup> real) \<Rightarrow> (string \<rightharpoonup> real)" where
  "collect_metrics [] final_metrics = final_metrics"
| "collect_metrics ((name, v) # metrics) final_metrics =
     collect_metrics metrics (final_metrics(name \<mapsto> v))"

definition final_metrics_of :: "training_job \<Rightarrow> (string \<rightharpoonup> real)" where
  "final_metrics_of job =
     (case FinalMetricDataList job of
        None \<Rightarrow> Map.empty
      | Some metrics \<Rightarrow> collect_metrics metrics Map.empty)"

definition check_deployment_criteria ::
  "deployment_pipeline \<Rightarrow> string \<Rightarrow> aws \<Rightarrow> (bool \<times> evaluation_results) \<times> deployment_pipeline" where
  "check_deployment_criteria s training_job_name w =
     (let s1 = info (''Checking deployment criteria for '' @ training_job_name) s in
      case describe_training_job_criteria w of
        Inl e \<Rightarrow>
          ((False, Evaluation_error training_job_name (str e)),
           log_error (''Error checking deployment criteria: '' @ str e) s1)
      | Inr job \<Rightarrow>
          (let final_metrics = final_metrics_of job;
               acc = dict_get final_metrics ''accuracy''
                       (dict_get final_metrics ''validation_accuracy'' 0);
               evaluation_results = Evaluation training_job_name acc final_metrics
           in if acc \<ge> ACCURACY_THRESHOLD (config s)
                then ((True, evaluation_results),
                      info ''Model accuracy meets deployment threshold'' s1)
              else if acc \<ge> MINIMUM_ACCURACY (config s)
                then ((False, evaluation_results),
                      warning ''Model accuracy meets minimum but below optimal threshold'' s1)
              else ((False, evaluation_results),
                    log_error ''Model accuracy below minimum threshold'' s1)))"

subsection \<open>get_current_production_endpoint\<close>

definition get_current_production_endpoint ::
  "deployment_pipeline \<Rightarrow> aws \<Rightarrow> string option \<times> deployment_pipeline" where
  "get_current_production_endpoint s w =
     (case list_endpoints w of
        Inl e \<Rightarrow> (None, warning (''Error finding current endpoint: '' @ str e) s)
      | Inr endpoints \<Rightarrow>
          (case find (\<lambda>endpoint. EndpointStatus endpoint = ''InService'' \<and>
                                 str_in (ENDPOINT_PREFIX (config s)) (EndpointName endpoint))
                     endpoints of
             Some endpoint \<Rightarrow>
               (Some (EndpointName endpoint),
                info (''Found current production endpoint: '' @ EndpointName endpoint) s)
           | None \<Rightarrow> (None, s)))"

subsection \<open>_test_endpoint\<close>

definition test_endpoint ::
  "deployment_pipeline \<Rightarrow> string \<Rightarrow> aws \<Rightarrow> test_results \<times> deployment_pipeline" where
  "test_endpoint s endpoint_name w =
     (let s1 = info (''Testing endpoint: '' @ endpoint_name) s in
      case invoke_endpoint w of
        Inr result \<Rightarrow> (Test_success result, info ''Endpoint test successful'' s1)
      | Inl e \<Rightarrow> (Test_failed (str e), log_error (''Endpoint test failed: '' @ str e) s1))"

subsection \<open>_rollback_deployment\<close>

definition rollback_deployment ::
  "deployment_pipeline \<Rightarrow> aws \<Rightarrow> rollback_results \<times> deployment_pipeline" where
  "rollback_deployment s w =
     (if \<not> truthy (previous_endpoint s) then
        (\<lparr>rb_status = ''no_previous_endpoint'', rolled_back_to = None,
          rb_reason = None, rb_error = None\<rparr>,
         warning ''No previous endpoint available for rollback'' s)
      else
        (let prev = the (previous_endpoint s);
             s1 = info (''Rolling back to previous endpoint: '' @ prev) s in
         case describe_endpoint w of
           Inl e \<Rightarrow>
             (\<lparr>rb_status = ''failed'', rolled_back_to = None,
               rb_reason = None, rb_error = Some (str e)\<rparr>,
              log_error (''Rollback failed: '' @ str e) s1)
         | Inr status \<Rightarrow>
             if status = ''InService'' then
               (\<lparr>rb_status = ''success'', rolled_back_to = Some prev,
                 rb_reason = None, rb_error = None\<rparr>,
                info (''Rollback successful - using '' @ prev) s1)
             else
               (\<lparr>rb_status = ''failed'', rolled_back_to = None,
                 rb_reason = Some (''Previous endpoint not available: '' @ status),
                 rb_error = None\<rparr>,
                log_error (''Previous endpoint '' @ prev @ '' is not InService'') s1)))"

subsection \<open>deploy_model\<close>

text \<open>
  The body of the \<open>try\<close> block: it returns the results of a deployment that ran to its
  end, or the exception that left the block, and in both cases the object as it then is.
\<close>

definition deploy_attempt ::
  "deployment_pipeline \<Rightarrow> string \<Rightarrow> string \<Rightarrow> string \<Rightarrow> aws \<Rightarrow>
   (error + deployment_results) \<times> deployment_pipeline" where
  "deploy_attempt s training_job_name instance_type endpoint_name w =
     (case describe_training_job_deploy w of
        Inl e \<Rightarrow> (Inl e, s)
      | Inr training_job \<Rightarrow>
          (case create_model w of
             Some e \<Rightarrow> (Inl e, s)
           | None \<Rightarrow>
               (let (found, s1) = get_current_production_endpoint s w;
                    s2 = s1\<lparr>previous_endpoint := found\<rparr>;
                    s3 = info ''Deploying model to endpoint...'' s2
                in case model_deploy w of
                     Some e \<Rightarrow> (Inl e, s3)
                   | None \<Rightarrow>
                       (let (test_results, s4) = test_endpoint s3 endpoint_name w;
                            metadata =
                              \<lparr>md_endpoint_name = endpoint_name,
                               md_training_job_name = training_job_name,
                               md_instance_type = instance_type,
                               md_previous_endpoint = previous_endpoint s4,
                               md_test_results = test_results\<rparr>;
                            s5 = s4\<lparr>deployment_metadata := Some metadata\<rparr>;
                            s6 = s5\<lparr>current_endpoint := Some endpoint_name\<rparr>;
                            deployment_results =
                              Deploy_success endpoint_name test_results metadata;
                            s7 = info ''Deployment successful'' s6
                        in (Inr deployment_results,
                            notify (Deployment_success_notification deployment_results) s7)))))"

definition deploy_model ::
  "deployment_pipeline \<Rightarrow> string \<Rightarrow> string option \<Rightarrow> aws \<Rightarrow>
   deployment_results \<times> deployment_pipeline" where
  "deploy_model s training_job_name instance_type_arg w =
     (let instance_type =
            (if truthy instance_type_arg then the instance_type_arg
             else INSTANCE_TYPE (config s));
          endpoint_name = ENDPOINT_PREFIX (config s) @ ''-'' @ now w;
          s0 = info (''   Instance Type: '' @ instance_type)
                 (info (''   Endpoint Name: '' @ endpoint_name)
                   (info (''   Training Job: '' @ training_job_name)
                     (info ''Starting model deployment'' s)))
      in case deploy_attempt s0 training_job_name instance_type endpoint_name w of
           (Inr deployment_results, s1) \<Rightarrow> (deployment_results, s1)
         | (Inl e, s1) \<Rightarrow>
             (let s2 = log_error (''Deployment failed: '' @ str e) s1;
                  (rollback_results, s3) =
                    (if ROLLBACK_ON_FAILURE (config s2) \<and> truthy (previous_endpoint s2)
                     then (let (r, t) = rollback_deployment s2 w in (Some r, t))
                     else (None, s2));
                  deployment_results = Deploy_failed (str e) rollback_results endpoint_name
              in (deployment_results,
                  notify (Deployment_failure_notification deployment_results) s3)))"

subsection \<open>run_deployment_pipeline\<close>

definition run_deployment_pipeline ::
  "deployment_pipeline \<Rightarrow> string option \<Rightarrow> aws \<Rightarrow> pipeline_results \<times> deployment_pipeline" where
  "run_deployment_pipeline s training_job_name_arg w =
     (let s0 = info ''Starting Enterprise MLOps Deployment Pipeline'' s;
          (found, s1) =
            (if \<not> truthy training_job_name_arg then get_latest_training_job s0 w
             else (training_job_name_arg, s0))
      in if \<not> truthy found then
           (let e = ValueError ''No suitable training job found'';
                s2 = log_error (''Deployment pipeline failed: '' @ str e) s1
            in (Pipeline_failed (str e), notify (Error_notification (str e)) s2))
         else
           (let training_job_name = the found;
                ((should, evaluation_results), s2) =
                  check_deployment_criteria s1 training_job_name w
            in if should \<and> AUTO_DEPLOY_ENABLED (config s2) then
                 (let s3 = info ''Deployment criteria met - proceeding with deployment'' s2;
                      (deployment_results, s4) = deploy_model s3 training_job_name None w
                  in (Pipeline_success training_job_name should evaluation_results
                        (Some deployment_results),
                      info ''Deployment pipeline completed'' s4))
               else
                 (let reason = (if \<not> should then ''Deployment criteria not met''
                                else ''Auto-deploy disabled'');
                      s3 = info (''Skipping deployment: '' @ reason) s2;
                      s4 = notify (Deployment_skipped_notification training_job_name
                                     evaluation_results reason) s3
                  in (Pipeline_success training_job_name should evaluation_results None,
                      info ''Deployment pipeline completed'' s4))))"

section \<open>pipeline/testing.py\<close>

record test_case =
  tc_name :: string
  tc_data :: "real list"
  expected_class :: int
  expected_species :: string

definition get_test_data :: "test_case list" where
  "get_test_data =
     [\<lparr>tc_name = ''Setosa Sample 1'', tc_data = [51/10, 35/10, 14/10, 2/10],
        expected_class = 0, expected_species = ''setosa''\<rparr>,
      \<lparr>tc_name = ''Setosa Sample 2'', tc_data = [49/10, 3, 14/10, 2/10],
        expected_class = 0, expected_species = ''setosa''\<rparr>,
      \<lparr>tc_name = ''Versicolor Sample 1'', tc_data = [7, 32/10, 47/10, 14/10],
        expected_class = 1, expected_species = ''versicolor''\<rparr>,
      \<lparr>tc_name = ''Versicolor Sample 2'', tc_data = [64/10, 32/10, 45/10, 15/10],
        expected_class = 1, expected_species = ''versicolor''\<rparr>,
      \<lparr>tc_name = ''Virginica Sample 1'', tc_data = [63/10, 33/10, 6, 25/10],
        expected_class = 2, expected_species = ''virginica''\<rparr>,
      \<lparr>tc_name = ''Virginica Sample 2'', tc_data = [58/10, 27/10, 51/10, 19/10],
        expected_class = 2, expected_species = ''virginica''\<rparr>,
      \<lparr>tc_name = ''Boundary Case 1'', tc_data = [6, 3, 4, 12/10],
        expected_class = 1, expected_species = ''versicolor''\<rparr>,
      \<lparr>tc_name = ''Boundary Case 2'', tc_data = [65/10, 3, 5, 18/10],
        expected_class = 2, expected_species = ''virginica''\<rparr>]"

subsection \<open>test_endpoint_health\<close>

record health_results =
  health_status :: string
  endpoint_status :: "string option"
  health_error :: "string option"

definition test_endpoint_health :: "error + string \<Rightarrow> health_results" where
  "test_endpoint_health described =
     (case described of
        Inr status \<Rightarrow>
          \<lparr>health_status = (if status = ''InService'' then ''healthy'' else ''unhealthy''),
           endpoint_status = Some status, health_error = None\<rparr>
      | Inl e \<Rightarrow>
          \<lparr>health_status = ''error'', endpoint_status = None, health_error = Some (str e)\<rparr>)"

subsection \<open>test_endpoint_predictions\<close>

text \<open>
  What one \<open>invoke_endpoint\<close> call does: it raises, or it returns after a measured
  latency with a body that decodes to a JSON value or fails to decode.
\<close>

datatype invoke_response =
    Invoke_raised error
  | Invoke_returned real "error + json"

datatype case_result =
    Case_success string "real list" int string json bool real
  | Case_failed string "real list" int string

fun case_status :: "case_result \<Rightarrow> string" where
  "case_status (Case_success n d e sp p c l) = ''success''"
| "case_status (Case_failed n d e m) = ''failed''"

text \<open>\<open>result[0] if isinstance(result, list) else result\<close>\<close>

fun predicted_class_of :: "json \<Rightarrow> error + json" where
  "predicted_class_of (JList []) = Inl (IndexError ''list index out of range'')"
| "predicted_class_of (JList (x # xs)) = Inr x"
| "predicted_class_of result = Inr result"

text \<open>Python's \<open>==\<close> between a decoded JSON value and an \<open>int\<close>.\<close>

fun py_eq :: "json \<Rightarrow> int \<Rightarrow> bool" where
  "py_eq (JNum r) n = (r = of_int n)"
| "py_eq (JBool b) n = ((if b then 1 else 0) = n)"
| "py_eq j n = False"

text \<open>
  One pass of the loop body over the accumulators \<open>prediction_results\<close>,
  \<open>latencies\<close> and \<open>correct_predictions\<close>. The latency is appended as soon as the call
  returns, before the body is decoded.
\<close>

definition run_case ::
  "invoke_response \<Rightarrow> test_case \<Rightarrow> case_result list \<times> real list \<times> nat \<Rightarrow>
   case_result list \<times> real list \<times> nat" where
  "run_case response tc acc =
     (case acc of (prediction_results, latencies, correct_predictions) \<Rightarrow>
      (case response of
         Invoke_raised e \<Rightarrow>
           (prediction_results @
              [Case_failed (tc_name tc) (tc_data tc) (expected_class tc) (str e)],
            latencies, correct_predictions)
       | Invoke_returned latency_ms body \<Rightarrow>
           (case body of
              Inl e \<Rightarrow>
                (prediction_results @
                   [Case_failed (tc_name tc) (tc_data tc) (expected_class tc) (str e)],
                 latencies @ [latency_ms], correct_predictions)
            | Inr result \<Rightarrow>
                (case predicted_class_of result of
                   Inl e \<Rightarrow>
                     (prediction_results @
                        [Case_failed (tc_name tc) (tc_data tc) (expected_class tc) (str e)],
                      latencies @ [latency_ms], correct_predictions)
                 | Inr predicted_class \<Rightarrow>
                     (let is_correct = py_eq predicted_class (expected_class tc) in
                      (prediction_results @
                         [Case_success (tc_name tc) (tc_data tc) (expected_class tc)
                            (expected_species tc) predicted_class is_correct latency_ms],
                       latencies @ [latency_ms],
                       (if is_correct then correct_predictions + 1
                        else correct_predictions)))))))"

text \<open>\<open>for i, test_case in enumerate(test_cases, 1)\<close>: the \<open>i\<close>-th call gets \<open>invoke i\<close>.\<close>

fun predictions_loop ::
  "(nat \<Rightarrow> invoke_response) \<Rightarrow> (nat \<times> test_case) list \<Rightarrow>
   case_result list \<times> real list \<times> nat \<Rightarrow> case_result list \<times> real list \<times> nat" where
  "predictions_loop invoke [] acc = acc"
| "predictions_loop invoke ((i, tc) # rest) acc =
     predictions_loop invoke rest (run_case (invoke i) tc acc)"

fun max_list :: "real list \<Rightarrow> real" where
  "max_list [] = 0"
| "max_list [x] = x"
| "max_list (x # y # ys) = max x (max_list (y # ys))"

fun min_list :: "real list \<Rightarrow> real" where
  "min_list [] = 0"
| "min_list [x] = x"
| "min_list (x # y # ys) = min x (min_list (y # ys))"

record prediction_test_results =
  pt_accuracy :: real
  correct_predictions :: nat
  total_predictions :: nat
  avg_latency_ms :: real
  max_latency_ms :: real
  min_latency_ms :: real
  individual_results :: "case_result list"

definition test_endpoint_predictions_on ::
  "test_case list \<Rightarrow> (nat \<Rightarrow> invoke_response) \<Rightarrow> prediction_test_results" where
  "test_endpoint_predictions_on test_cases invoke =
     (let total = length test_cases in
      case predictions_loop invoke (enumerate 1 test_cases) ([], [], 0) of
        (prediction_results, latencies, correct) \<Rightarrow>
          \<lparr>pt_accuracy = (if total > 0 then real correct / real total else 0),
           correct_predictions = correct,
           total_predictions = total,
           avg_latency_ms =
             (if latencies \<noteq> [] then sum_list latencies / real (length latencies) else 0),
           max_latency_ms = (if latencies \<noteq> [] then max_list latencies else 0),
           min_latency_ms = (if latencies \<noteq> [] then min_list latencies else 0),
           individual_results = prediction_results\<rparr>)"

definition test_endpoint_predictions :: "(nat \<Rightarrow> invoke_response) \<Rightarrow> prediction_test_results" where
  "test_endpoint_predictions invoke = test_endpoint_predictions_on get_test_data invoke"

subsection \<open>test_endpoint_performance\<close>

text \<open>
  The load loop runs until a wall-clock deadline; its input here is the outcomes of the
  requests it got to issue (an exception, or a latency) and the measured duration.
\<close>

fun performance_loop :: "(error + real) list \<Rightarrow> real list \<times> nat \<times> nat \<Rightarrow> real list \<times> nat \<times> nat" where
  "performance_loop [] acc = acc"
| "performance_loop (Inr request_time # rest) (request_times, successful, failed) =
     performance_loop rest (request_times @ [request_time], successful + 1, failed)"
| "performance_loop (Inl e # rest) (request_times, successful, failed) =
     performance_loop rest (request_times, successful, failed + 1)"

record performance_results =
  total_requests :: nat
  successful_requests :: nat
  failed_requests :: nat
  success_rate :: real
  throughput_rps :: real
  perf_avg_latency_ms :: real
  perf_max_latency_ms :: real
  perf_min_latency_ms :: real
  p95_latency_ms :: real

definition test_endpoint_performance :: "(error + real) list \<Rightarrow> real \<Rightarrow> performance_results" where
  "test_endpoint_performance requests total_duration =
     (case performance_loop requests ([], 0, 0) of
        (request_times, successful, failed) \<Rightarrow>
          (let total = successful + failed in
           \<lparr>total_requests = total,
            successful_requests = successful,
            failed_requests = failed,
            success_rate = (if total > 0 then real successful / real total else 0),
            throughput_rps = (if total_duration > 0 then real successful / total_duration else 0),
            perf_avg_latency_ms =
              (if request_times \<noteq> [] then sum_list request_times / real (length request_times)
               else 0),
            perf_max_latency_ms = (if request_times \<noteq> [] then max_list request_times else 0),
            perf_min_latency_ms = (if request_times \<noteq> [] then min_list request_times else 0),
            p95_latency_ms =
              (if request_times \<noteq> []
               then sort request_times ! nat \<lfloor>(95 / 100) * real (length request_times)\<rfloor>
               else 0)\<rparr>))"

subsection \<open>run_comprehensive_tests\<close>

datatype issue =
    Health_check_failed
  | Accuracy_below_minimum real
  | Success_rate_below_95 real
  | Latency_above_1s real

text \<open>
  The block that determines the overall status: four checks in sequence, each of which
  assigns \<open>overall_status\<close> and appends to \<open>issues\<close> when it fires.
\<close>

definition determine_overall_status ::
  "pipeline_config \<Rightarrow> health_results \<Rightarrow> prediction_test_results \<Rightarrow> performance_results \<Rightarrow>
   string \<times> issue list" where
  "determine_overall_status cfg health prediction performance =
     (let overall_status = ''passed'';
          issues = [];
          (overall_status, issues) =
            (if health_status health \<noteq> ''healthy''
             then (''failed'', issues @ [Health_check_failed])
             else (overall_status, issues));
          prediction_accuracy = pt_accuracy prediction;
          (overall_status, issues) =
            (if prediction_accuracy < MINIMUM_ACCURACY cfg
             then (''failed'', issues @ [Accuracy_below_minimum prediction_accuracy])
             else (overall_status, issues));
          rate = success_rate performance;
          (overall_status, issues) =
            (if rate < 95 / 100
             then (''warning'', issues @ [Success_rate_below_95 rate])
             else (overall_status, issues));
          avg_latency = perf_avg_latency_ms performance;
          (overall_status, issues) =
            (if avg_latency > 1000
             then (''warning'', issues @ [Latency_above_1s avg_latency])
             else (overall_status, issues))
      in (overall_status, issues))"

record testing_world =
  describe_endpoint_health :: "error + string"
  invoke_case :: "nat \<Rightarrow> invoke_response"
  load_requests :: "(error + real) list"
  load_duration :: real

record comprehensive_results =
  overall_status :: string
  issues :: "issue list"
  cr_health_results :: health_results
  cr_prediction_results :: prediction_test_results
  cr_performance_results :: performance_results
  cr_endpoint_name :: string

definition run_comprehensive_tests ::
  "pipeline_config \<Rightarrow> string \<Rightarrow> testing_world \<Rightarrow> comprehensive_results" where
  "run_comprehensive_tests cfg endpoint_name tw =
     (let health = test_endpoint_health (describe_endpoint_health tw);
          prediction = test_endpoint_predictions (invoke_case tw);
          performance = test_endpoint_performance (load_requests tw) (load_duration tw);
          (status, found) = determine_overall_status cfg health prediction performance
      in \<lparr>overall_status = status, issues = found,
          cr_health_results = health,
          cr_prediction_results = prediction,
          cr_performance_results = performance,
          cr_endpoint_name = endpoint_name\<rparr>)"

section \<open>pipeline/training.py: run_training_pipeline\<close>

text \<open>
  Data preparation, local training and evaluation are opaque here: they raise or yield
  the evaluation. So is the SageMaker training job, which raises or yields its name.
  Every exception is re-raised by \<open>run_training_pipeline\<close>. Its notifications, which
  never raise, are left out.
\<close>

record training_world =
  local_evaluation :: "error + evaluation"
  sagemaker_fit :: "error + string"

record training_results =
  tr_evaluation_results :: evaluation
  tr_should_deploy :: bool
  deployment_reason :: reason
  sagemaker_training_job :: "string option"

definition run_training_pipeline :: "pipeline_config \<Rightarrow> training_world \<Rightarrow> error + training_results" where
  "run_training_pipeline cfg tw =
     (case local_evaluation tw of
        Inl e \<Rightarrow> Inl e
      | Inr evaluation_results \<Rightarrow>
          (case should_deploy cfg evaluation_results of
             (should, why) \<Rightarrow>
               if should \<and> AUTO_DEPLOY_ENABLED cfg then
                 (case sagemaker_fit tw of
                    Inl e \<Rightarrow> Inl e
                  | Inr job \<Rightarrow>
                      Inr \<lparr>tr_evaluation_results = evaluation_results, tr_should_deploy = should,
                           deployment_reason = why, sagemaker_training_job = Some job\<rparr>)
               else
                 Inr \<lparr>tr_evaluation_results = evaluation_results, tr_should_deploy = should,
                      deployment_reason = why, sagemaker_training_job = None\<rparr>))"

section \<open>scripts/run_pipeline.py\<close>

datatype mode = Complete | Training | Deployment | Testing

record args =
  mode :: mode
  training_job :: "string option"
  endpoint_name_arg :: "string option"
  output_file :: "string option"
  accuracy_threshold :: "real option"
  minimum_accuracy :: "real option"
  instance_type_opt :: "string option"
  verbose :: bool

text \<open>Truthiness of an optional float: \<open>None\<close> and \<open>0.0\<close> are falsy.\<close>

fun truthy_float :: "real option \<Rightarrow> bool" where
  "truthy_float None = False"
| "truthy_float (Some x) = (x \<noteq> 0)"

text \<open>
  The command-line overrides are assigned to the instance \<open>config\<close>: they change what
  \<open>config.X\<close> reads, not the class attributes.
\<close>

definition apply_overrides :: "args \<Rightarrow> pipeline_config \<Rightarrow> pipeline_config" where
  "apply_overrides a cls =
     (let c1 = (if truthy_float (accuracy_threshold a)
                then cls\<lparr>ACCURACY_THRESHOLD := the (accuracy_threshold a)\<rparr> else cls);
          c2 = (if truthy_float (minimum_accuracy a)
                then c1\<lparr>MINIMUM_ACCURACY := the (minimum_accuracy a)\<rparr> else c1);
          c3 = (if truthy (instance_type_opt a)
                then c2\<lparr>INSTANCE_TYPE := the (instance_type_opt a)\<rparr> else c2)
      in if verbose a then c3\<lparr>LOG_LEVEL := ''DEBUG''\<rparr> else c3)"

text \<open>
  Everything outside the process: the class attributes of \<open>PipelineConfig\<close> (read from
  the environment), whether each pipeline object can be constructed, the services each
  stage talks to, and whether the output file can be written.
\<close>

record world =
  class_config :: pipeline_config
  training_init :: "error option"
  training :: training_world
  deployment_init :: "error option"
  deployment :: aws
  testing_init :: "error option"
  latest_endpoints :: "error + endpoint_summary list"
  testing :: testing_world
  output_write :: "error option"

datatype deployment_entry = Deployment_ran pipeline_results | Deployment_skipped

datatype testing_entry = Testing_ran comprehensive_results | Testing_skipped

record results =
  res_training :: "training_results option"
  res_deployment :: "deployment_entry option"
  res_testing :: "testing_entry option"

text \<open>\<open>deploy_results.get('deployment_results')\<close>\<close>

fun deployment_results_of :: "deployment_entry \<Rightarrow> deployment_results option" where
  "deployment_results_of (Deployment_ran (Pipeline_success job should ev dr)) = dr"
| "deployment_results_of (Deployment_ran (Pipeline_failed e)) = None"
| "deployment_results_of Deployment_skipped = None"

text \<open>
  \<open>deployment_results['endpoint_name']\<close>: the dictionary of a failed deployment has the
  key \<open>attempted_endpoint\<close> and no \<open>endpoint_name\<close>.
\<close>

fun endpoint_name_of :: "deployment_results \<Rightarrow> error + string" where
  "endpoint_name_of (Deploy_success endpoint_name tr md) = Inr endpoint_name"
| "endpoint_name_of (Deploy_failed e rb attempted) = Inl (KeyError ''endpoint_name'')"

fun pipeline_status :: "deployment_entry \<Rightarrow> string" where
  "pipeline_status (Deployment_ran (Pipeline_success job should ev dr)) = ''success''"
| "pipeline_status (Deployment_ran (Pipeline_failed e)) = ''failed''"
| "pipeline_status Deployment_skipped = ''skipped''"

definition training_phase :: "args \<Rightarrow> pipeline_config \<Rightarrow> world \<Rightarrow> results \<Rightarrow> error + results" where
  "training_phase a cfg w res =
     (if mode a = Complete \<or> mode a = Training then
        (case training_init w of
           Some e \<Rightarrow> Inl e
         | None \<Rightarrow>
             (case run_training_pipeline cfg (training w) of
                Inl e \<Rightarrow> Inl e
              | Inr train_results \<Rightarrow> Inr (res\<lparr>res_training := Some train_results\<rparr>)))
      else Inr res)"

definition deployment_phase :: "args \<Rightarrow> pipeline_config \<Rightarrow> world \<Rightarrow> results \<Rightarrow> error + results" where
  "deployment_phase a cfg w res =
     (if mode a = Complete \<or> mode a = Deployment then
        (case deployment_init w of
           Some e \<Rightarrow> Inl e
         | None \<Rightarrow>
             (let deployer = new_deployment_pipeline cfg;
                  deploy_results =
                    (if mode a = Deployment \<and> truthy (training_job a) then
                       Deployment_ran
                         (fst (run_deployment_pipeline deployer (training_job a) (deployment w)))
                     else if mode a = Complete \<and>
                             (case res_training res of
                                Some train_results \<Rightarrow> tr_should_deploy train_results
                              | None \<Rightarrow> False) then
                       Deployment_ran (fst (run_deployment_pipeline deployer None (deployment w)))
                     else if mode a = Deployment then
                       Deployment_ran (fst (run_deployment_pipeline deployer None (deployment w)))
                     else Deployment_skipped);
                  res1 = res\<lparr>res_deployment := Some deploy_results\<rparr>
              in case deployment_results_of deploy_results of
                   Some dr \<Rightarrow>
                     (case endpoint_name_of dr of
                        Inl e \<Rightarrow> Inl e
                      | Inr endpoint_name \<Rightarrow> Inr res1)
                 | None \<Rightarrow> Inr res1))
      else Inr res)"

definition choose_endpoint :: "args \<Rightarrow> pipeline_config \<Rightarrow> world \<Rightarrow> results \<Rightarrow> error + string option" where
  "choose_endpoint a cfg w res =
     (if truthy (endpoint_name_arg a) then Inr (endpoint_name_arg a)
      else
        (case (case res_deployment res of
                 Some d \<Rightarrow> deployment_results_of d
               | None \<Rightarrow> None) of
           Some dr \<Rightarrow>
             (case endpoint_name_of dr of
                Inl e \<Rightarrow> Inl e
              | Inr endpoint_name \<Rightarrow> Inr (Some endpoint_name))
         | None \<Rightarrow>
             (case latest_endpoints w of
                Inl e \<Rightarrow> Inl e
              | Inr endpoints \<Rightarrow>
                  Inr (map_option EndpointName
                         (find (\<lambda>endpoint. EndpointStatus endpoint = ''InService'' \<and>
                                  str_in (ENDPOINT_PREFIX cfg) (EndpointName endpoint))
                               endpoints)))))"

definition testing_phase :: "args \<Rightarrow> pipeline_config \<Rightarrow> world \<Rightarrow> results \<Rightarrow> error + results" where
  "testing_phase a cfg w res =
     (if mode a = Complete \<or> mode a = Testing then
        (case testing_init w of
           Some e \<Rightarrow> Inl e
         | None \<Rightarrow>
             (case choose_endpoint a cfg w res of
                Inl e \<Rightarrow> Inl e
              | Inr endpoint_name \<Rightarrow>
                  if truthy endpoint_name then
                    Inr (res\<lparr>res_testing :=
                               Some (Testing_ran
                                 (run_comprehensive_tests cfg (the endpoint_name) (testing w)))\<rparr>)
                  else Inr (res\<lparr>res_testing := Some Testing_skipped\<rparr>)))
      else Inr res)"

text \<open>The body of the \<open>try\<close> block of \<open>main\<close>.\<close>

definition main_try :: "args \<Rightarrow> pipeline_config \<Rightarrow> world \<Rightarrow> error + results" where
  "main_try a cfg w =
     (case training_phase a cfg w
             \<lparr>res_training = None, res_deployment = None, res_testing = None\<rparr> of
        Inl e \<Rightarrow> Inl e
      | Inr res1 \<Rightarrow>
          (case deployment_phase a cfg w res1 of
             Inl e \<Rightarrow> Inl e
           | Inr res2 \<Rightarrow>
               (case testing_phase a cfg w res2 of
                  Inl e \<Rightarrow> Inl e
                | Inr res3 \<Rightarrow>
                    if truthy (output_file a) then
                      (case output_write w of
                         Some e \<Rightarrow> Inl e
                       | None \<Rightarrow> Inr res3)
                    else Inr res3)))"

text \<open>
  The exit code of the process. \<open>validate\<close> is a classmethod, so it is given the class
  attributes; the pipelines are given the instance.
\<close>

definition main :: "args \<Rightarrow> world \<Rightarrow> nat" where
  "main a w =
     (let cfg = apply_overrides a (class_config w) in
      case validate (class_config w) of
        Inl e \<Rightarrow> 1
      | Inr ok \<Rightarrow>
          (case main_try a cfg w of
             Inr res \<Rightarrow> 0
           | Inl e \<Rightarrow> 1))"

section \<open>Loading the deployment module\<close>

text \<open>
  The top level of a module, as far as names go: an import binds names, an import guarded
  by \<open>except ImportError\<close> binds them when the package is installed, and a class
  statement runs its \<open>def\<close> statements. When annotations are evaluated eagerly, a
  \<open>def\<close> evaluates the names of its annotations, in order, as it is executed.
\<close>

datatype stmt =
    Import "string list"
  | Try_import "string list"
  | Class_def string "(string \<times> string list) list"

fun first_unbound :: "string list \<Rightarrow> string list \<Rightarrow> string option" where
  "first_unbound [] scope = None"
| "first_unbound (n # ns) scope = (if n \<in> set scope then first_unbound ns scope else Some n)"

fun exec_defs :: "bool \<Rightarrow> string list \<Rightarrow> (string \<times> string list) list \<Rightarrow> error option" where
  "exec_defs eager scope [] = None"
| "exec_defs eager scope ((f, annotations) # defs) =
     (if eager then
        (case first_unbound annotations scope of
           Some n \<Rightarrow> Some (NameError n)
         | None \<Rightarrow> exec_defs eager scope defs)
      else exec_defs eager scope defs)"

fun exec_module :: "bool \<Rightarrow> bool \<Rightarrow> stmt list \<Rightarrow> string list \<Rightarrow> error + string list" where
  "exec_module eager sdk [] scope = Inr scope"
| "exec_module eager sdk (Import names # rest) scope =
     exec_module eager sdk rest (scope @ names)"
| "exec_module eager sdk (Try_import names # rest) scope =
     exec_module eager sdk rest (if sdk then scope @ names else scope)"
| "exec_module eager sdk (Class_def c defs # rest) scope =
     (case exec_defs eager scope defs of
        Some e \<Rightarrow> Inl e
      | None \<Rightarrow> exec_module eager sdk rest (scope @ [c]))"

definition builtins :: "string list" where
  "builtins = [''str'', ''bool'', ''int'', ''float'', ''list'', ''dict'']"

text \<open>\<open>pipeline/deployment.py\<close>: its imports and the annotations of each method.\<close>

definition deployment_py :: "stmt list" where
  "deployment_py =
     [Import [''json''], Import [''logging''], Import [''time''], Import [''datetime''],
      Import [''Any'', ''Dict'', ''Optional''],
      Import [''boto3''],
      Try_import [''sagemaker'', ''get_execution_role'', ''SKLearnModel''],
      Import [''PipelineConfig''], Import [''NotificationManager''],
      Class_def ''DeploymentPipeline''
        [(''__init__'', [''PipelineConfig'']),
         (''_setup_logging'', [''logging'']),
         (''get_latest_training_job'', [''Optional'', ''str'']),
         (''check_deployment_criteria'', [''str'', ''Tuple'', ''bool'', ''Dict'', ''str'', ''Any'']),
         (''get_current_production_endpoint'', [''Optional'', ''str'']),
         (''deploy_model'', [''str'', ''str'', ''Dict'', ''str'', ''Any'']),
         (''_test_endpoint'', [''str'', ''Dict'', ''str'', ''Any'']),
         (''_rollback_deployment'', [''Dict'', ''str'', ''Any'']),
         (''run_deployment_pipeline'', [''str'', ''Dict'', ''str'', ''Any''])]]"

definition import_deployment :: "bool \<Rightarrow> bool \<Rightarrow> error + string list" where
  "import_deployment eager sdk = exec_module eager sdk deployment_py builtins"

text \<open>
  The script imports \<open>pipeline.deployment\<close> at its top, before \<open>main\<close> is called: an
  exception there leaves the process before any pipeline logic, otherwise the process
  ends with the exit code of \<open>main\<close>.
\<close>

definition run_pipeline_script :: "bool \<Rightarrow> bool \<Rightarrow> args \<Rightarrow> world \<Rightarrow> error + nat" where
  "run_pipeline_script eager sdk a w =
     (case import_deployment eager sdk of
        Inl e \<Rightarrow> Inl e
      | Inr namespace \<Rightarrow> Inr (main a w))"

section \<open>Observations and concrete inputs\<close>

text \<open>
  \<open>_rollback_deployment\<close> always returns a dictionary, so it was called exactly when
  the failure record carries rollback results.
\<close>

fun rollback_invoked :: "deployment_results \<Rightarrow> bool" where
  "rollback_invoked (Deploy_failed e rollback attempted) = (rollback \<noteq> None)"
| "rollback_invoked (Deploy_success endpoint_name tr md) = False"

fun deployed_test_results :: "deployment_results \<Rightarrow> test_results option" where
  "deployed_test_results (Deploy_success endpoint_name tr md) = Some tr"
| "deployed_test_results (Deploy_failed e rollback attempted) = None"

text \<open>The defaults of \<open>config.py\<close>, with no environment variable set.\<close>

definition default_config :: pipeline_config where
  "default_config =
     \<lparr>ACCURACY_THRESHOLD = 95 / 100, MINIMUM_ACCURACY = 90 / 100,
      INSTANCE_TYPE = ''ml.m5.large'', AUTO_DEPLOY_ENABLED = True,
      ROLLBACK_ON_FAILURE = True, MODEL_NAME_PREFIX = ''iris-classifier'',
      ENDPOINT_PREFIX = ''iris-model'', LOG_LEVEL = ''INFO''\<rparr>"

definition sample_job :: training_job where
  "sample_job =
     \<lparr>FinalMetricDataList = Some [(''accuracy'', 97 / 100)],
      S3ModelArtifacts = ''s3://sagemaker-mlops-artifacts/models/model.tar.gz'',
      RoleArn = ''arn:aws:iam::123456789012:role/sagemaker''\<rparr>"

text \<open>
  A run in which every call succeeds: one completed training job, one endpoint already in
  service, a candidate that deploys and answers the smoke test.
\<close>

definition sample_aws :: aws where
  "sample_aws =
     \<lparr>now = ''20250102-030405'',
      list_training_jobs =
        Inr [\<lparr>TrainingJobName = ''iris-classifier-20250101-000000'',
              TrainingJobStatus = ''Completed''\<rparr>],
      describe_training_job_criteria = Inr sample_job,
      describe_training_job_deploy = Inr sample_job,
      create_model = None,
      list_endpoints =
        Inr [\<lparr>EndpointName = ''iris-model-20241231-235959'', EndpointStatus = ''InService''\<rparr>],
      model_deploy = None,
      invoke_endpoint = Inr (JList [JNum 0, JNum 1, JNum 2]),
      describe_endpoint = Inr ''InService''\<rparr>"

text \<open>The same run, with a candidate that deploys and then fails the smoke test.\<close>

definition failing_test_aws :: aws where
  "failing_test_aws = sample_aws\<lparr>invoke_endpoint := Inl (RemoteError ''ModelError'')\<rparr>"

text \<open>The same run, with a candidate whose provisioning raises.\<close>

definition failing_deploy_aws :: aws where
  "failing_deploy_aws =
     sample_aws\<lparr>model_deploy := Some (RemoteError ''ResourceLimitExceeded'')\<rparr>"

text \<open>A training job whose only final metric is the given accuracy, and the run that finds it.\<close>

definition job_with_accuracy :: "real \<Rightarrow> training_job" where
  "job_with_accuracy a = sample_job\<lparr>FinalMetricDataList := Some [(''accuracy'', a)]\<rparr>"

definition aws_with_accuracy :: "real \<Rightarrow> aws" where
  "aws_with_accuracy a =
     sample_aws\<lparr>describe_training_job_criteria := Inr (job_with_accuracy a)\<rparr>"

text \<open>The names in a job's final metric list.\<close>

definition metric_names :: "training_job \<Rightarrow> string list" where
  "metric_names job =
     (case FinalMetricDataList job of None \<Rightarrow> [] | Some metrics \<Rightarrow> map fst metrics)"

text \<open>A training job that reports an F1 score and no accuracy.\<close>

definition job_without_accuracy :: training_job where
  "job_without_accuracy = sample_job\<lparr>FinalMetricDataList := Some [(''f1_score'', 9 / 10)]\<rparr>"

definition aws_without_accuracy :: aws where
  "aws_without_accuracy =
     sample_aws\<lparr>describe_training_job_criteria := Inr job_without_accuracy\<rparr>"

text \<open>Both thresholds set to zero in the environment: a pair that \<open>validate\<close> accepts.\<close>

definition zero_threshold_config :: pipeline_config where
  "zero_threshold_config = default_config\<lparr>ACCURACY_THRESHOLD := 0, MINIMUM_ACCURACY := 0\<rparr>"

text \<open>
  The count the claim about functional accuracy speaks of: a case matches when the call
  returned, its body decoded, and the predicted class equals the expected class.
\<close>

definition prediction_matches :: "invoke_response \<Rightarrow> test_case \<Rightarrow> bool" where
  "prediction_matches response tc =
     (case response of
        Invoke_raised e \<Rightarrow> False
      | Invoke_returned latency_ms body \<Rightarrow>
          (case body of
             Inl e \<Rightarrow> False
           | Inr result \<Rightarrow>
               (case predicted_class_of result of
                  Inl e \<Rightarrow> False
                | Inr predicted_class \<Rightarrow> py_eq predicted_class (expected_class tc))))"

text \<open>A transport error: the call to the endpoint raised.\<close>

fun transport_error :: "invoke_response \<Rightarrow> bool" where
  "transport_error (Invoke_raised e) = True"
| "transport_error (Invoke_returned latency_ms body) = False"

definition matching :: "(nat \<Rightarrow> invoke_response) \<Rightarrow> (nat \<times> test_case) list \<Rightarrow> nat" where
  "matching invoke cases = length (filter (\<lambda>(i, tc). prediction_matches (invoke i) tc) cases)"

text \<open>
  An endpoint that fails the third call, answers the seventh with the wrong class and every
  other call with the expected one.
\<close>

definition sample_invoke :: "nat \<Rightarrow> invoke_response" where
  "sample_invoke i =
     (if i = 3 then Invoke_raised (RemoteError ''ServiceUnavailable'')
      else if i = 7 then Invoke_returned 12 (Inr (JList [JNum 2]))
      else Invoke_returned 10 (Inr (JList [JNum (of_int (expected_class (get_test_data ! (i - 1))))])))"

text \<open>
  A candidate that is not in service and rejects every request, in the functional test and
  under load.
\<close>

definition failing_testing_world :: testing_world where
  "failing_testing_world =
     \<lparr>describe_endpoint_health = Inr ''Failed'',
      invoke_case = (\<lambda>i. Invoke_raised (RemoteError ''ValidationError'')),
      load_requests = [Inl (RemoteError ''ValidationError''), Inl (RemoteError ''ValidationError'')],
      load_duration = 30\<rparr>"

text \<open>
  The object as \<open>deploy_model\<close> holds it when provisioning has raised: no current
  endpoint, and the endpoint found in service as the previous one.
\<close>

definition state_before_rollback :: deployment_pipeline where
  "state_before_rollback =
     (new_deployment_pipeline default_config)\<lparr>previous_endpoint := Some ''iris-model-20241231-235959''\<rparr>"

text \<open>The previous endpoint has left service; the previous endpoint cannot be described.\<close>

definition prior_failed_aws :: aws where
  "prior_failed_aws = failing_deploy_aws\<lparr>describe_endpoint := Inr ''Failed''\<rparr>"

definition prior_unreachable_aws :: aws where
  "prior_unreachable_aws =
     failing_deploy_aws\<lparr>describe_endpoint := Inl (RemoteError ''ThrottlingException'')\<rparr>"

text \<open>An endpoint in service that answers as \<open>sample_invoke\<close> and serves two load requests.\<close>

definition sample_testing_world :: testing_world where
  "sample_testing_world =
     \<lparr>describe_endpoint_health = Inr ''InService'',
      invoke_case = sample_invoke,
      load_requests = [Inr 20, Inr 30],
      load_duration = 30\<rparr>"

text \<open>The command line with only \<open>--role-arn\<close> given: mode \<open>complete\<close>, no override.\<close>

definition complete_args :: args where
  "complete_args =
     \<lparr>mode = Complete, training_job = None, endpoint_name_arg = None, output_file = None,
      accuracy_threshold = None, minimum_accuracy = None, instance_type_opt = None,
      verbose = False\<rparr>"

text \<open>
  A run under the default configuration whose local model evaluates to an accuracy of 0.5,
  below the minimum, and in which the testing stage finds no endpoint in service.
\<close>

definition rejected_world :: world where
  "rejected_world =
     \<lparr>class_config = default_config,
      training_init = None,
      training = \<lparr>local_evaluation = Inr \<lparr>accuracy = 1 / 2, cv_mean_accuracy = 1 / 2\<rparr>,
                  sagemaker_fit = Inr ''iris-classifier-20250101-000000''\<rparr>,
      deployment_init = None,
      deployment = sample_aws,
      testing_init = None,
      latest_endpoints = Inr [],
      testing = sample_testing_world,
      output_write = None\<rparr>"

text \<open>The same run with no training job listed, and with a training stage that raises.\<close>

definition no_job_world :: world where
  "no_job_world = rejected_world\<lparr>deployment := sample_aws\<lparr>list_training_jobs := Inr []\<rparr>\<rparr>"

definition broken_training_world :: world where
  "broken_training_world =
     rejected_world\<lparr>training := \<lparr>local_evaluation = Inl (ValueError ''empty dataset''),
                                    sagemaker_fit = Inr ''iris-classifier-20250101-000000''\<rparr>\<rparr>"

text \<open>
  Training mode with \<open>--accuracy-threshold 0.5 --minimum-accuracy 0.9\<close>: a target below
  the minimum.
\<close>

definition override_args :: args where
  "override_args =
     complete_args\<lparr>mode := Training, accuracy_threshold := Some (1 / 2),
                    minimum_accuracy := Some (9 / 10)\<rparr>"

section \<open>Configuration validation\<close>

text \<open>On finite thresholds \<open>validate\<close> is \<open>validate_float\<close>.\<close>

lemma validate_finite:
  "validate cls =
     validate_float (Finite (ACCURACY_THRESHOLD cls)) (Finite (MINIMUM_ACCURACY cls))"
  by (simp add: validate_def validate_float_def float_gt_def)

text \<open>
  On a finite pair the method accepts exactly when \<open>0 \<le> minimum \<le> target \<le> 1\<close> and
  raises a \<open>ValueError\<close> otherwise.
\<close>

lemma validate_finite_thresholds:
  "(validate_float (Finite t) (Finite m) = Inr True \<longleftrightarrow> 0 \<le> m \<and> m \<le> t \<and> t \<le> 1) \<and>
   ((\<exists>e. validate_float (Finite t) (Finite m) = Inl (ValueError e)) \<longleftrightarrow>
      t < m \<or> t < 0 \<or> t > 1 \<or> m < 0 \<or> m > 1)"
  by (auto simp: validate_float_def float_gt_def)

text \<open>
  C8. The claim is that configuration validation rejects every threshold pair with the
  target below the minimum or a threshold outside \<open>[0, 1]\<close>. \<open>main\<close> applies the
  command-line thresholds to the instance and then calls \<open>validate\<close>, a classmethod that
  reads the class attributes: with a target of 0.5 and a minimum of 0.9 given on the
  command line, validation passes on the defaults, the run proceeds with the bad pair,
  approves a model of accuracy 0.5 and exits 0. A NaN threshold from the environment
  fails none of the three comparisons and is accepted as well.
\<close>

theorem bad_thresholds_not_rejected:
  "validate (class_config rejected_world) = Inr True \<and>
   ACCURACY_THRESHOLD (apply_overrides override_args (class_config rejected_world)) = 1 / 2 \<and>
   MINIMUM_ACCURACY (apply_overrides override_args (class_config rejected_world)) = 9 / 10 \<and>
   map_sum str tr_should_deploy
     (run_training_pipeline (apply_overrides override_args (class_config rejected_world))
        (training rejected_world)) = Inr True \<and>
   main override_args rejected_world = 0 \<and>
   validate_float NaN (Finite (9 / 10)) = Inr True \<and>
   validate_float (Finite (95 / 100)) NaN = Inr True"
  by (simp add: main_def main_try_def training_phase_def deployment_phase_def testing_phase_def
      run_training_pipeline_def should_deploy_def validate_def validate_float_def float_gt_def
      apply_overrides_def override_args_def complete_args_def rejected_world_def
      default_config_def Let_def)

section \<open>The deployment decision\<close>

text \<open>
  C1. With \<open>0 \<le> minimum \<le> target \<le> 1\<close>, both decision functions are a trichotomy on
  the accuracy with inclusive lower bounds. At or above the target, \<open>should_deploy\<close> and
  \<open>check_deployment_criteria\<close> return true. From the minimum up to, and not including,
  the target they return false, with the reason (for \<open>check_deployment_criteria\<close>, the
  warning it logs) that the accuracy meets the minimum. Below the minimum they return
  false with the below-minimum reason. The two boundaries are instances: an accuracy equal
  to the target is in the first case, and one equal to a minimum below the target is in
  the second.
\<close>

theorem metrics_gate_trichotomy:
  assumes "0 \<le> MINIMUM_ACCURACY cfg"
    and "MINIMUM_ACCURACY cfg \<le> ACCURACY_THRESHOLD cfg"
    and "ACCURACY_THRESHOLD cfg \<le> 1"
    and "config s = cfg"
    and "describe_training_job_criteria w = Inr job"
    and "dict_get (final_metrics_of job) ''accuracy''
           (dict_get (final_metrics_of job) ''validation_accuracy'' 0) = accuracy ev"
  shows "(accuracy ev \<ge> ACCURACY_THRESHOLD cfg \<longrightarrow>
            fst (should_deploy cfg ev) \<and>
            fst (fst (check_deployment_criteria s job_name w))) \<and>
         (MINIMUM_ACCURACY cfg \<le> accuracy ev \<and> accuracy ev < ACCURACY_THRESHOLD cfg \<longrightarrow>
            should_deploy cfg ev =
              (False, Meets_minimum_below_optimal (accuracy ev) (MINIMUM_ACCURACY cfg)
                        (ACCURACY_THRESHOLD cfg)) \<and>
            \<not> fst (fst (check_deployment_criteria s job_name w)) \<and>
            last (logged (snd (check_deployment_criteria s job_name w))) =
              (WARNING, ''Model accuracy meets minimum but below optimal threshold'')) \<and>
         (accuracy ev < MINIMUM_ACCURACY cfg \<longrightarrow>
            should_deploy cfg ev =
              (False, Below_minimum_threshold (accuracy ev) (MINIMUM_ACCURACY cfg)) \<and>
            \<not> fst (fst (check_deployment_criteria s job_name w)) \<and>
            last (logged (snd (check_deployment_criteria s job_name w))) =
              (ERROR, ''Model accuracy below minimum threshold''))"
  using assms
  by (auto simp: should_deploy_def check_deployment_criteria_def Let_def
        info_def warning_def log_error_def)

theorem metrics_gate_trichotomy_witness:
  "fst (should_deploy default_config \<lparr>accuracy = 95 / 100, cv_mean_accuracy = 9 / 10\<rparr>) \<and>
   fst (fst (check_deployment_criteria (new_deployment_pipeline default_config) ''job''
               (aws_with_accuracy (95 / 100)))) \<and>
   should_deploy default_config \<lparr>accuracy = 90 / 100, cv_mean_accuracy = 9 / 10\<rparr> =
     (False, Meets_minimum_below_optimal (90 / 100) (90 / 100) (95 / 100)) \<and>
   \<not> fst (fst (check_deployment_criteria (new_deployment_pipeline default_config) ''job''
               (aws_with_accuracy (90 / 100)))) \<and>
   should_deploy default_config \<lparr>accuracy = 1 / 2, cv_mean_accuracy = 1 / 2\<rparr> =
     (False, Below_minimum_threshold (1 / 2) (90 / 100)) \<and>
   \<not> fst (fst (check_deployment_criteria (new_deployment_pipeline default_config) ''job''
               (aws_with_accuracy (1 / 2))))"
  using
    metrics_gate_trichotomy [of default_config "new_deployment_pipeline default_config"
      "aws_with_accuracy (95 / 100)" "job_with_accuracy (95 / 100)"
      "\<lparr>accuracy = 95 / 100, cv_mean_accuracy = 9 / 10\<rparr>" "''job''"]
    metrics_gate_trichotomy [of default_config "new_deployment_pipeline default_config"
      "aws_with_accuracy (90 / 100)" "job_with_accuracy (90 / 100)"
      "\<lparr>accuracy = 90 / 100, cv_mean_accuracy = 9 / 10\<rparr>" "''job''"]
    metrics_gate_trichotomy [of default_config "new_deployment_pipeline default_config"
      "aws_with_accuracy (1 / 2)" "job_with_accuracy (1 / 2)"
      "\<lparr>accuracy = 1 / 2, cv_mean_accuracy = 1 / 2\<rparr>" "''job''"]
  by (simp add: default_config_def new_deployment_pipeline_def aws_with_accuracy_def
        job_with_accuracy_def sample_aws_def sample_job_def final_metrics_of_def dict_get_def)

subsection \<open>A job that reports no accuracy\<close>

lemma collect_metrics_None:
  "k \<notin> set (map fst metrics) \<Longrightarrow> m k = None \<Longrightarrow> collect_metrics metrics m k = None"
proof (induction metrics arbitrary: m)
  case Nil
  then show ?case by simp
next
  case (Cons p metrics)
  obtain name v where p: "p = (name, v)" by (cases p)
  from Cons.prems p have "name \<noteq> k" and "k \<notin> set (map fst metrics)" by auto
  with Cons.prems have "(m(name \<mapsto> v)) k = None" by simp
  with Cons.IH \<open>k \<notin> set (map fst metrics)\<close> p show ?case by simp
qed

lemma final_metrics_missing:
  "k \<notin> set (metric_names job) \<Longrightarrow> final_metrics_of job k = None"
  by (simp add: metric_names_def final_metrics_of_def collect_metrics_None split: option.splits)

text \<open>
  C10, as stated, fails when the deployment threshold is zero: an accuracy defaulted to
  0.0 then meets the threshold and the job is approved for deployment.
\<close>

theorem missing_accuracy_counterexample:
  "validate zero_threshold_config = Inr True \<and>
   ''accuracy'' \<notin> set (metric_names job_without_accuracy) \<and>
   ''validation_accuracy'' \<notin> set (metric_names job_without_accuracy) \<and>
   fst (fst (check_deployment_criteria (new_deployment_pipeline zero_threshold_config) ''job''
          aws_without_accuracy)) = True"
  by (simp add: validate_def zero_threshold_config_def default_config_def metric_names_def
      job_without_accuracy_def sample_job_def aws_without_accuracy_def sample_aws_def
      check_deployment_criteria_def new_deployment_pipeline_def final_metrics_of_def
      dict_get_def Let_def)

text \<open>
  C10, amended. When the deployment threshold is positive, a training job that is
  described without error and whose final metrics contain neither \<open>accuracy\<close> nor
  \<open>validation_accuracy\<close> gets the accuracy 0.0: \<open>check_deployment_criteria\<close> returns
  false together with an ordinary evaluation record, not the error record.
\<close>

theorem missing_accuracy_blocks_deployment:
  assumes "describe_training_job_criteria w = Inr job"
    and "''accuracy'' \<notin> set (metric_names job)"
    and "''validation_accuracy'' \<notin> set (metric_names job)"
    and "0 < ACCURACY_THRESHOLD (config s)"
  shows "fst (check_deployment_criteria s job_name w) =
           (False, Evaluation job_name 0 (final_metrics_of job))"
  using assms
  by (simp add: check_deployment_criteria_def Let_def dict_get_def final_metrics_missing)

theorem missing_accuracy_blocks_deployment_witness:
  "fst (fst (check_deployment_criteria (new_deployment_pipeline default_config) ''job''
          aws_without_accuracy)) = False \<and>
   (\<exists>m. snd (fst (check_deployment_criteria (new_deployment_pipeline default_config) ''job''
          aws_without_accuracy)) = Evaluation ''job'' 0 m)"
  using missing_accuracy_blocks_deployment [of aws_without_accuracy job_without_accuracy
      "new_deployment_pipeline default_config" "''job''"]
  by (simp add: aws_without_accuracy_def job_without_accuracy_def sample_aws_def sample_job_def
      metric_names_def new_deployment_pipeline_def default_config_def)

section \<open>Functional accuracy\<close>

lemma run_case_shape:
  "\<exists>r ls'. run_case response tc (rs, ls, c) =
             (rs @ [r], ls', c + (if prediction_matches response tc then 1 else 0)) \<and>
           (transport_error response \<longrightarrow> case_status r = ''failed'')"
  by (cases response)
     (auto simp: run_case_def prediction_matches_def Let_def split: sum.splits)

lemma predictions_loop_shape:
  "\<exists>rs' ls'. predictions_loop invoke cases (rs, ls, c) =
               (rs @ rs', ls', c + matching invoke cases) \<and>
             length rs' = length cases \<and>
             (\<forall>k<length cases. transport_error (invoke (fst (cases ! k))) \<longrightarrow>
                 case_status (rs' ! k) = ''failed'')"
proof (induction cases arbitrary: rs ls c)
  case Nil
  then show ?case by (simp add: matching_def)
next
  case (Cons p cases)
  obtain i tc where p: "p = (i, tc)" by (cases p)
  obtain r ls1 where step:
    "run_case (invoke i) tc (rs, ls, c) =
       (rs @ [r], ls1, c + (if prediction_matches (invoke i) tc then 1 else 0))"
    and failed: "transport_error (invoke i) \<longrightarrow> case_status r = ''failed''"
    using run_case_shape by blast
  obtain rs' ls' where rest:
    "predictions_loop invoke cases
       (rs @ [r], ls1, c + (if prediction_matches (invoke i) tc then 1 else 0)) =
     ((rs @ [r]) @ rs', ls',
      c + (if prediction_matches (invoke i) tc then 1 else 0) + matching invoke cases)"
    and len: "length rs' = length cases"
    and fl: "\<forall>k<length cases. transport_error (invoke (fst (cases ! k))) \<longrightarrow>
                 case_status (rs' ! k) = ''failed''"
    using Cons.IH by blast
  have "predictions_loop invoke (p # cases) (rs, ls, c) =
          (rs @ (r # rs'), ls', c + matching invoke (p # cases))"
    using step rest p by (simp add: matching_def)
  moreover have "length (r # rs') = length (p # cases)" using len by simp
  moreover have "\<forall>k<length (p # cases). transport_error (invoke (fst ((p # cases) ! k))) \<longrightarrow>
                 case_status ((r # rs') ! k) = ''failed''"
  proof (intro allI impI)
    fix k assume "k < length (p # cases)"
      and "transport_error (invoke (fst ((p # cases) ! k)))"
    then show "case_status ((r # rs') ! k) = ''failed''"
      using failed fl p by (cases k) auto
  qed
  ultimately show ?case by blast
qed

text \<open>
  C7. For a non-empty batch of labelled cases, the reported accuracy is exactly the number
  of matching cases divided by the number of cases. Every case yields one entry in the
  results, so a transport error does not stop the loop; the entry of a case whose call
  raised has status \<open>failed\<close>, and the case stays in the denominator.
\<close>

theorem functional_accuracy_exact:
  assumes "test_cases \<noteq> []"
  shows "pt_accuracy (test_endpoint_predictions_on test_cases invoke) =
           real (matching invoke (enumerate 1 test_cases)) / real (length test_cases) \<and>
         correct_predictions (test_endpoint_predictions_on test_cases invoke) =
           matching invoke (enumerate 1 test_cases) \<and>
         total_predictions (test_endpoint_predictions_on test_cases invoke) = length test_cases \<and>
         length (individual_results (test_endpoint_predictions_on test_cases invoke)) =
           length test_cases \<and>
         (\<forall>k<length test_cases. transport_error (invoke (Suc k)) \<longrightarrow>
            case_status (individual_results (test_endpoint_predictions_on test_cases invoke) ! k) =
              ''failed'')"
proof -
  obtain rs' ls' where loop:
    "predictions_loop invoke (enumerate 1 test_cases) ([], [], 0) =
       ([] @ rs', ls', 0 + matching invoke (enumerate 1 test_cases))"
    and len: "length rs' = length (enumerate 1 test_cases)"
    and fl: "\<forall>k<length (enumerate 1 test_cases).
               transport_error (invoke (fst (enumerate 1 test_cases ! k))) \<longrightarrow>
               case_status (rs' ! k) = ''failed''"
    using predictions_loop_shape by blast
  have "\<forall>k<length test_cases. transport_error (invoke (Suc k)) \<longrightarrow>
          case_status (rs' ! k) = ''failed''"
    using fl by (simp add: nth_enumerate_eq)
  then show ?thesis
    using assms loop len by (simp add: test_endpoint_predictions_on_def Let_def)
qed

theorem functional_accuracy_exact_witness:
  "pt_accuracy (test_endpoint_predictions sample_invoke) = 6 / 8 \<and>
   total_predictions (test_endpoint_predictions sample_invoke) = 8 \<and>
   case_status (individual_results (test_endpoint_predictions sample_invoke) ! 2) = ''failed''"
  using functional_accuracy_exact [of get_test_data sample_invoke]
  by (simp add: test_endpoint_predictions_def get_test_data_def sample_invoke_def matching_def
      prediction_matches_def enumerate_eq_zip upt_rec)

section \<open>The overall validation verdict\<close>

text \<open>
  C4. The claim is that an unhealthy endpoint or an accuracy below the minimum always
  gives the verdict failed, also when a warning condition fires as well. The code assigns
  the status check by check, and the two load checks come last: on an endpoint that is
  unhealthy, answers no test case and serves no request under load, the verdict is
  \<open>warning\<close>, with the three issue lines recorded.
\<close>

theorem failed_downgraded_to_warning:
  "health_status (cr_health_results
      (run_comprehensive_tests default_config ''iris-model-20250102-030405''
         failing_testing_world)) = ''unhealthy'' \<and>
   pt_accuracy (cr_prediction_results
      (run_comprehensive_tests default_config ''iris-model-20250102-030405''
         failing_testing_world)) = 0 \<and>
   overall_status (run_comprehensive_tests default_config ''iris-model-20250102-030405''
      failing_testing_world) = ''warning'' \<and>
   issues (run_comprehensive_tests default_config ''iris-model-20250102-030405''
      failing_testing_world) =
     [Health_check_failed, Accuracy_below_minimum 0, Success_rate_below_95 0]"
  by (simp add: run_comprehensive_tests_def failing_testing_world_def test_endpoint_health_def
      test_endpoint_predictions_def test_endpoint_predictions_on_def get_test_data_def
      enumerate_eq_zip upt_rec run_case_def test_endpoint_performance_def
      determine_overall_status_def default_config_def Let_def)

section \<open>Deployment, promotion and rollback\<close>

lemma gcpe_config [simp]: "config (snd (get_current_production_endpoint s w)) = config s"
  by (simp add: get_current_production_endpoint_def info_def warning_def split: sum.splits option.splits)

lemma gcpe_fst_cong:
  "config s = config t \<Longrightarrow>
   fst (get_current_production_endpoint s w) = fst (get_current_production_endpoint t w)"
  by (simp add: get_current_production_endpoint_def split: sum.splits option.splits)

lemma gcpe_endpoints [simp]:
  "current_endpoint (snd (get_current_production_endpoint s w)) = current_endpoint s"
  "previous_endpoint (snd (get_current_production_endpoint s w)) = previous_endpoint s"
  by (simp_all add: get_current_production_endpoint_def info_def warning_def split: sum.splits option.splits)

lemma info_fields [simp]:
  "config (info m s) = config s"
  "current_endpoint (info m s) = current_endpoint s"
  "previous_endpoint (info m s) = previous_endpoint s"
  "config (log_error m s) = config s"
  "current_endpoint (log_error m s) = current_endpoint s"
  "previous_endpoint (log_error m s) = previous_endpoint s"
  "config (warning m s) = config s"
  "current_endpoint (warning m s) = current_endpoint s"
  "previous_endpoint (warning m s) = previous_endpoint s"
  "config (notify n s) = config s"
  "current_endpoint (notify n s) = current_endpoint s"
  "previous_endpoint (notify n s) = previous_endpoint s"
  by (simp_all add: info_def log_error_def warning_def notify_def)

lemma test_endpoint_fields [simp]:
  "config (snd (test_endpoint s n w)) = config s"
  "current_endpoint (snd (test_endpoint s n w)) = current_endpoint s"
  "previous_endpoint (snd (test_endpoint s n w)) = previous_endpoint s"
  by (simp_all add: test_endpoint_def Let_def split: sum.splits)

lemma rollback_fields [simp]:
  "config (snd (rollback_deployment s w)) = config s"
  "current_endpoint (snd (rollback_deployment s w)) = current_endpoint s"
  "previous_endpoint (snd (rollback_deployment s w)) = previous_endpoint s"
  by (simp_all add: rollback_deployment_def Let_def split: sum.splits)

lemma test_endpoint_fst:
  "fst (test_endpoint s n w) =
     (case invoke_endpoint w of Inr r \<Rightarrow> Test_success r | Inl e \<Rightarrow> Test_failed (str e))"
  by (simp add: test_endpoint_def Let_def split: sum.splits)

text \<open>
  C3, as stated, fails: a candidate that deploys and then fails the smoke test is still
  assigned to \<open>current_endpoint\<close>.
\<close>

theorem promoted_without_pass_counterexample:
  "map_option test_status (deployed_test_results (fst (deploy_model (new_deployment_pipeline default_config)
      ''iris-classifier-20250101-000000'' None failing_test_aws))) = Some ''failed'' \<and>
   current_endpoint (snd (deploy_model (new_deployment_pipeline default_config)
      ''iris-classifier-20250101-000000'' None failing_test_aws)) =
     Some ''iris-model-20250102-030405''"
  by (simp add: deploy_model_def deploy_attempt_def Let_def split_beta default_config_def
      new_deployment_pipeline_def failing_test_aws_def sample_aws_def
      get_current_production_endpoint_def test_endpoint_def info_def log_error_def notify_def)

text \<open>
  C3, amended. \<open>current_endpoint\<close> is assigned the candidate exactly when the training
  job is described, the model is constructed and \<open>model.deploy\<close> returns, whatever the
  outcome of the endpoint test; in every other run it keeps its value.
\<close>

theorem current_endpoint_after_deploy:
  "current_endpoint (snd (deploy_model s job it w)) =
     (if (\<exists>j. describe_training_job_deploy w = Inr j) \<and> create_model w = None \<and>
         model_deploy w = None
      then Some (ENDPOINT_PREFIX (config s) @ ''-'' @ now w)
      else current_endpoint s)"
  by (cases "describe_training_job_deploy w"; cases "create_model w"; cases "model_deploy w")
     (simp_all add: deploy_model_def deploy_attempt_def Let_def split_beta)

theorem current_endpoint_after_deploy_witness:
  "current_endpoint (snd (deploy_model (new_deployment_pipeline default_config)
      ''iris-classifier-20250101-000000'' None sample_aws)) =
     Some ''iris-model-20250102-030405'' \<and>
   current_endpoint (snd (deploy_model (new_deployment_pipeline default_config)
      ''iris-classifier-20250101-000000'' None failing_deploy_aws)) = None"
  using current_endpoint_after_deploy [of "new_deployment_pipeline default_config"
      "''iris-classifier-20250101-000000''" None sample_aws]
    current_endpoint_after_deploy [of "new_deployment_pipeline default_config"
      "''iris-classifier-20250101-000000''" None failing_deploy_aws]
  by (simp add: default_config_def new_deployment_pipeline_def failing_deploy_aws_def
      sample_aws_def)

text \<open>
  C2, as stated, fails: with rollback enabled, a previous endpoint in service and a
  candidate that fails the smoke test, the rollback routine is not called.
\<close>

theorem rollback_iff_validation_fail_counterexample:
  "ROLLBACK_ON_FAILURE default_config \<and>
   previous_endpoint (snd (deploy_model (new_deployment_pipeline default_config)
      ''iris-classifier-20250101-000000'' None failing_test_aws)) =
     Some ''iris-model-20241231-235959'' \<and>
   map_option test_status (deployed_test_results (fst (deploy_model (new_deployment_pipeline default_config)
      ''iris-classifier-20250101-000000'' None failing_test_aws))) = Some ''failed'' \<and>
   \<not> rollback_invoked (fst (deploy_model (new_deployment_pipeline default_config)
      ''iris-classifier-20250101-000000'' None failing_test_aws))"
  by (simp add: deploy_model_def deploy_attempt_def Let_def split_beta default_config_def
      new_deployment_pipeline_def failing_test_aws_def sample_aws_def
      get_current_production_endpoint_def test_endpoint_def info_def log_error_def notify_def)

text \<open>
  C2, amended. The rollback routine is called exactly when \<open>ROLLBACK_ON_FAILURE\<close> is
  set, an exception leaves the \<open>try\<close> block of \<open>deploy_model\<close>, and
  \<open>previous_endpoint\<close> is then set: the value the object already held when describing the
  job or constructing the model raises, the endpoint found in service when
  \<open>model.deploy\<close> raises. The endpoint test raises nothing: when the candidate deploys,
  its test result is returned in the results and rollback is not called.
\<close>

theorem rollback_invoked_iff:
  "(rollback_invoked (fst (deploy_model s job it w)) \<longleftrightarrow>
     ROLLBACK_ON_FAILURE (config s) \<and>
     (if (\<exists>e. describe_training_job_deploy w = Inl e) \<or> create_model w \<noteq> None
      then truthy (previous_endpoint s)
      else model_deploy w \<noteq> None \<and> truthy (fst (get_current_production_endpoint s w)))) \<and>
   ((\<exists>j. describe_training_job_deploy w = Inr j) \<and> create_model w = None \<and>
    model_deploy w = None \<longrightarrow>
      deployed_test_results (fst (deploy_model s job it w)) =
        Some (case invoke_endpoint w of
                Inr r \<Rightarrow> Test_success r
              | Inl e \<Rightarrow> Test_failed (str e)))"
  by (cases "describe_training_job_deploy w"; cases "create_model w"; cases "model_deploy w")
     (simp_all add: deploy_model_def deploy_attempt_def Let_def split_beta test_endpoint_fst
        gcpe_fst_cong [of "info a (info b (info c (info d s)))" s for a b c d])

theorem rollback_invoked_iff_witness:
  "rollback_invoked (fst (deploy_model (new_deployment_pipeline default_config)
      ''iris-classifier-20250101-000000'' None failing_deploy_aws))"
  using rollback_invoked_iff [of "new_deployment_pipeline default_config"
      "''iris-classifier-20250101-000000''" None failing_deploy_aws]
  by (simp add: default_config_def
      new_deployment_pipeline_def failing_deploy_aws_def sample_aws_def
      get_current_production_endpoint_def info_def)

section \<open>Importing the deployment module\<close>

text \<open>
  C9. When annotations are evaluated eagerly, executing \<open>pipeline/deployment.py\<close> stops
  in the class body with a \<open>NameError\<close> for \<open>Tuple\<close>, which the module never imports,
  whether or not the SageMaker SDK is installed; the script that imports the module ends
  there, before \<open>main\<close> is called.
\<close>

theorem deployment_module_name_error:
  "import_deployment True sdk = Inl (NameError ''Tuple'') \<and>
   run_pipeline_script True sdk a w = Inl (NameError ''Tuple'')"
  by (simp add: run_pipeline_script_def import_deployment_def deployment_py_def builtins_def)

section \<open>The rollback routine\<close>

text \<open>
  C5, as stated, fails in two places. A rollback that finds the previous endpoint in
  service reports success and leaves \<open>current_endpoint\<close> as it was, here unset. A
  previous endpoint that has left service and a fault while describing it give the same
  status, \<open>failed\<close>.
\<close>

theorem rollback_outcome_counterexample:
  "rb_status (fst (rollback_deployment state_before_rollback failing_deploy_aws)) = ''success'' \<and>
   current_endpoint (snd (rollback_deployment state_before_rollback failing_deploy_aws)) = None \<and>
   rb_status (fst (rollback_deployment state_before_rollback prior_failed_aws)) = ''failed'' \<and>
   rb_status (fst (rollback_deployment state_before_rollback prior_unreachable_aws)) = ''failed''"
  by (simp add: rollback_deployment_def state_before_rollback_def new_deployment_pipeline_def
      failing_deploy_aws_def prior_failed_aws_def prior_unreachable_aws_def sample_aws_def
      Let_def info_def log_error_def)

text \<open>
  C5, amended. Without a previous endpoint the status is \<open>no_previous_endpoint\<close>. With
  one that is still in service the status is \<open>success\<close> and the result names it as
  \<open>rolled_back_to\<close>. With one that is no longer in service the status is \<open>failed\<close> with
  a reason that quotes the endpoint status, and with a fault while describing it the status
  is \<open>failed\<close> with the error text instead of a reason; both are logged at error level
  and returned to the caller. No outcome changes \<open>current_endpoint\<close> or
  \<open>previous_endpoint\<close>.
\<close>

theorem rollback_deployment_outcomes:
  "(\<not> truthy (previous_endpoint s) \<longrightarrow>
      fst (rollback_deployment s w) =
        \<lparr>rb_status = ''no_previous_endpoint'', rolled_back_to = None,
         rb_reason = None, rb_error = None\<rparr>) \<and>
   (truthy (previous_endpoint s) \<and> describe_endpoint w = Inr ''InService'' \<longrightarrow>
      fst (rollback_deployment s w) =
        \<lparr>rb_status = ''success'', rolled_back_to = previous_endpoint s,
         rb_reason = None, rb_error = None\<rparr>) \<and>
   (truthy (previous_endpoint s) \<and> describe_endpoint w = Inr status \<and>
    status \<noteq> ''InService'' \<longrightarrow>
      fst (rollback_deployment s w) =
        \<lparr>rb_status = ''failed'', rolled_back_to = None,
         rb_reason = Some (''Previous endpoint not available: '' @ status),
         rb_error = None\<rparr> \<and>
      fst (last (logged (snd (rollback_deployment s w)))) = ERROR) \<and>
   (truthy (previous_endpoint s) \<and> describe_endpoint w = Inl e \<longrightarrow>
      fst (rollback_deployment s w) =
        \<lparr>rb_status = ''failed'', rolled_back_to = None, rb_reason = None,
         rb_error = Some (str e)\<rparr> \<and>
      fst (last (logged (snd (rollback_deployment s w)))) = ERROR) \<and>
   current_endpoint (snd (rollback_deployment s w)) = current_endpoint s \<and>
   previous_endpoint (snd (rollback_deployment s w)) = previous_endpoint s"
  by (cases "previous_endpoint s"; cases "describe_endpoint w")
     (simp_all add: rollback_deployment_def Let_def info_def log_error_def warning_def)

theorem rollback_deployment_outcomes_witness:
  "rb_status (fst (rollback_deployment (new_deployment_pipeline default_config) sample_aws)) =
     ''no_previous_endpoint'' \<and>
   rolled_back_to (fst (rollback_deployment state_before_rollback failing_deploy_aws)) =
     Some ''iris-model-20241231-235959'' \<and>
   rb_reason (fst (rollback_deployment state_before_rollback prior_failed_aws)) =
     Some ''Previous endpoint not available: Failed'' \<and>
   rb_error (fst (rollback_deployment state_before_rollback prior_unreachable_aws)) =
     Some ''ThrottlingException''"
  using rollback_deployment_outcomes [of "new_deployment_pipeline default_config" sample_aws]
    rollback_deployment_outcomes [of state_before_rollback failing_deploy_aws]
    rollback_deployment_outcomes [of state_before_rollback prior_failed_aws "''Failed''"]
    rollback_deployment_outcomes [of state_before_rollback prior_unreachable_aws _
      "RemoteError ''ThrottlingException''"]
  by (simp add: state_before_rollback_def new_deployment_pipeline_def
      failing_deploy_aws_def prior_failed_aws_def prior_unreachable_aws_def sample_aws_def)

section \<open>The exit code\<close>

lemma validate_cases: "validate cls = Inr True \<or> (\<exists>m. validate cls = Inl (ValueError m))"
  by (simp add: validate_def)

text \<open>
  C6, as stated, fails: a run whose model is rejected, with nothing promoted, exits 0, in
  training mode and in complete mode.
\<close>

theorem rejected_run_exits_zero_counterexample:
  "run_training_pipeline default_config (training rejected_world) =
     Inr \<lparr>tr_evaluation_results = \<lparr>accuracy = 1 / 2, cv_mean_accuracy = 1 / 2\<rparr>,
          tr_should_deploy = False,
          deployment_reason = Below_minimum_threshold (1 / 2) (90 / 100),
          sagemaker_training_job = None\<rparr> \<and>
   main (complete_args\<lparr>mode := Training\<rparr>) rejected_world = 0 \<and>
   main complete_args rejected_world = 0"
  by (simp add: main_def main_try_def training_phase_def deployment_phase_def testing_phase_def
      choose_endpoint_def run_training_pipeline_def should_deploy_def validate_def
      apply_overrides_def complete_args_def rejected_world_def default_config_def Let_def)

text \<open>
  C6, amended. The exit code is 0 exactly when the configuration validates and no
  exception reaches the handler of \<open>main\<close>, and 1 otherwise. It is 1 when validation
  fails, and when the training pipeline cannot be constructed or raises. A decision not to
  deploy is not an exception: a training-mode run whose training stage returns exits 0,
  whatever the decision, provided the output file, when one is asked for, can be written.
\<close>

theorem main_exit_code:
  "(main a w = 0 \<longleftrightarrow>
      validate (class_config w) = Inr True \<and>
      (\<exists>res. main_try a (apply_overrides a (class_config w)) w = Inr res)) \<and>
   (main a w = 0 \<or> main a w = 1) \<and>
   ((\<exists>e. validate (class_config w) = Inl e) \<longrightarrow> main a w = 1) \<and>
   ((mode a = Complete \<or> mode a = Training) \<and>
    (training_init w \<noteq> None \<or>
     (\<exists>e. run_training_pipeline (apply_overrides a (class_config w)) (training w) = Inl e)) \<longrightarrow>
      main a w = 1) \<and>
   (mode a = Training \<and> validate (class_config w) = Inr True \<and> training_init w = None \<and>
    (\<exists>tr. run_training_pipeline (apply_overrides a (class_config w)) (training w) = Inr tr) \<and>
    (truthy (output_file a) \<longrightarrow> output_write w = None) \<longrightarrow>
      main a w = 0)"
proof -
  let ?cfg = "apply_overrides a (class_config w)"
  have iff: "main a w = 0 \<longleftrightarrow>
      validate (class_config w) = Inr True \<and> (\<exists>res. main_try a ?cfg w = Inr res)"
    using validate_cases [of "class_config w"]
    by (cases "main_try a ?cfg w") (auto simp: main_def Let_def)
  have range: "main a w = 0 \<or> main a w = 1"
    by (simp add: main_def Let_def split: sum.splits)
  have invalid: "(\<exists>e. validate (class_config w) = Inl e) \<longrightarrow> main a w = 1"
    by (auto simp: main_def Let_def)
  have raised: "(mode a = Complete \<or> mode a = Training) \<and>
    (training_init w \<noteq> None \<or> (\<exists>e. run_training_pipeline ?cfg (training w) = Inl e)) \<longrightarrow>
      main a w = 1"
    by (auto simp: main_def main_try_def training_phase_def Let_def
        split: sum.splits option.splits)
  have returned: "mode a = Training \<and> validate (class_config w) = Inr True \<and>
    training_init w = None \<and> (\<exists>tr. run_training_pipeline ?cfg (training w) = Inr tr) \<and>
    (truthy (output_file a) \<longrightarrow> output_write w = None) \<longrightarrow> main a w = 0"
    by (auto simp: main_def main_try_def training_phase_def deployment_phase_def
        testing_phase_def Let_def)
  from iff range invalid raised returned show ?thesis by blast
qed

theorem main_exit_code_witness:
  "main (complete_args\<lparr>mode := Training\<rparr>) rejected_world = 0 \<and>
   main complete_args broken_training_world = 1 \<and>
   main complete_args (rejected_world\<lparr>class_config := default_config\<lparr>MINIMUM_ACCURACY := 2\<rparr>\<rparr>) = 1"
  using main_exit_code [of "complete_args\<lparr>mode := Training\<rparr>" rejected_world]
    main_exit_code [of complete_args broken_training_world]
    main_exit_code [of complete_args
      "rejected_world\<lparr>class_config := default_config\<lparr>MINIMUM_ACCURACY := 2\<rparr>\<rparr>"]
  by (simp add: complete_args_def rejected_world_def broken_training_world_def
      default_config_def validate_def apply_overrides_def run_training_pipeline_def
      should_deploy_def)

text \<open>
  A deployment pipeline that ends as \<open>failed\<close>, here because no training job is found,
  returns its error record without raising, and the process exits 0.
\<close>

lemma failed_pipeline_exits_zero:
  "fst (run_deployment_pipeline (new_deployment_pipeline default_config) None
          (deployment no_job_world)) = Pipeline_failed ''No suitable training job found'' \<and>
   main (complete_args\<lparr>mode := Deployment\<rparr>) no_job_world = 0"
  by (simp add: main_def main_try_def training_phase_def deployment_phase_def testing_phase_def
      run_deployment_pipeline_def get_latest_training_job_def validate_def
      apply_overrides_def complete_args_def no_job_world_def rejected_world_def
      sample_aws_def default_config_def new_deployment_pipeline_def Let_def
      info_def log_error_def notify_def)

text \<open>
  A deployment that \<open>deploy_model\<close> reports as failed does end the process with exit
  code 1, by way of a \<open>KeyError\<close>: \<open>main\<close> reads \<open>endpoint_name\<close> from a failure record
  that has none.
\<close>

lemma deploy_model_failed:
  assumes "describe_training_job_deploy w = Inr j" and "create_model w = None"
    and "model_deploy w = Some e"
  shows "endpoint_name_of (fst (deploy_model s job it w)) = Inl (KeyError ''endpoint_name'')"
  using assms by (simp add: deploy_model_def deploy_attempt_def Let_def split_beta)

lemma run_deployment_pipeline_deploys:
  assumes "truthy (Some job)"
    and "fst (fst (check_deployment_criteria (info ''Starting Enterprise MLOps Deployment Pipeline'' s) job w))"
    and "AUTO_DEPLOY_ENABLED (config s)"
  shows "\<exists>t ev. fst (run_deployment_pipeline s (Some job) w) =
           Pipeline_success job True ev (Some (fst (deploy_model t job None w)))"
proof -
  have cfg: "config (snd (check_deployment_criteria t job w)) = config t" for t
    by (simp add: check_deployment_criteria_def Let_def split: sum.splits)
  show ?thesis
    using assms by (auto simp: run_deployment_pipeline_def Let_def split_beta cfg)
qed

lemma failed_deploy_model_exits_one:
  "main (complete_args\<lparr>mode := Deployment, training_job := Some ''iris-classifier-20250101-000000''\<rparr>)
     (rejected_world\<lparr>deployment := failing_deploy_aws\<rparr>) = 1"
proof -
  let ?s = "new_deployment_pipeline default_config"
  let ?job = "''iris-classifier-20250101-000000''"
  have "fst (fst (check_deployment_criteria
          (info ''Starting Enterprise MLOps Deployment Pipeline'' ?s) ?job failing_deploy_aws))"
    by (simp add: check_deployment_criteria_def failing_deploy_aws_def sample_aws_def
        sample_job_def final_metrics_of_def dict_get_def default_config_def
        new_deployment_pipeline_def Let_def info_def)
  moreover have "AUTO_DEPLOY_ENABLED (config ?s)"
    by (simp add: new_deployment_pipeline_def default_config_def)
  ultimately obtain t ev where run:
    "fst (run_deployment_pipeline ?s (Some ?job) failing_deploy_aws) =
       Pipeline_success ?job True ev (Some (fst (deploy_model t ?job None failing_deploy_aws)))"
    using run_deployment_pipeline_deploys [of ?job ?s failing_deploy_aws] by auto
  have key: "endpoint_name_of (fst (deploy_model t ?job None failing_deploy_aws)) =
               Inl (KeyError ''endpoint_name'')"
    by (rule deploy_model_failed [where j = sample_job and e = "RemoteError ''ResourceLimitExceeded''"])
       (simp_all add: failing_deploy_aws_def sample_aws_def)
  let ?a = "complete_args\<lparr>mode := Deployment, training_job := Some ?job\<rparr>"
  let ?w = "rejected_world\<lparr>deployment := failing_deploy_aws\<rparr>"
  have cfg: "apply_overrides ?a default_config = default_config"
    by (simp add: apply_overrides_def complete_args_def)
  have val: "validate default_config = Inr True"
    by (simp add: validate_def default_config_def)
  have w: "class_config ?w = default_config" "deployment_init ?w = None"
    "deployment ?w = failing_deploy_aws"
    by (simp_all add: rejected_world_def)
  show ?thesis
    using run key
    by (simp add: main_def main_try_def training_phase_def deployment_phase_def cfg val w
        Let_def)
qed

end
